theory Spec2Isabelle
  imports Complex_Main "HOL-Library.Word"
begin

section \<open>Chaos codec: floating-point values and external capabilities\<close>

text \<open>
  The notebook computes on numpy float64 (and, for the de-quantised delta, float32) values.
  A value is either a real number (both signed zeros are the number 0; the numbers a
  format can hold are among the reals), one of the two infinities, or a NaN.
\<close>

datatype fl = Num real | PInf | MInf | NaN

text \<open>
  Every operation whose result is rounded is a field of \<open>arith\<close>: nothing is assumed about
  it unless a theorem says so. \<open>bad_int16\<close> is what the platform stores when a value that
  int16 cannot hold (a NaN, an infinity, a number outside the range) is cast to int16.
\<close>

record arith =
  fadd :: "fl \<Rightarrow> fl \<Rightarrow> fl"
  fsub :: "fl \<Rightarrow> fl \<Rightarrow> fl"
  fmul :: "fl \<Rightarrow> fl \<Rightarrow> fl"
  fpow2 :: "fl \<Rightarrow> fl"
  arr_pow2 :: "fl \<Rightarrow> fl"
  fdiv32 :: "fl \<Rightarrow> fl \<Rightarrow> fl"
  to_f16 :: "fl \<Rightarrow> fl"
  bad_int16 :: "fl \<Rightarrow> 16 word"

text \<open>
  The exceptions of the script's own statements are IndexError (a read past the end of an
  array) and ValueError (a shape mismatch, a tuple unpacking of the wrong width); a library
  call may raise these or any other exception.
\<close>

datatype error = IndexError | ValueError | LibraryError string

record linmodel =
  coef :: "fl list"
  intercept :: "fl"

type_synonym bytes = "8 word list"

text \<open>
  The library calls of the script, each a relation between its arguments and an outcome:
  \<open>fit\<close> is \<open>LinearRegression().fit(X, y)\<close>, which returns a model or raises;
  \<open>dumps_resid\<close> is \<open>pickle.dumps\<close> of the record of quantised residuals and scale;
  \<open>dumps_weights\<close> is \<open>pickle.dumps\<close> of the float16 array; \<open>compress\<close> is
  \<open>zlib.compress\<close>; \<open>metrics\<close> stands for the four evaluation calls of STEP 8, which
  return or raise.
\<close>

record caps =
  fit :: "fl list list \<Rightarrow> fl list \<Rightarrow> error + linmodel \<Rightarrow> bool"
  dumps_resid :: "16 word list \<times> fl \<Rightarrow> bytes \<Rightarrow> bool"
  dumps_weights :: "fl list \<Rightarrow> bytes \<Rightarrow> bool"
  compress :: "bytes \<Rightarrow> bytes \<Rightarrow> bool"
  metrics :: "fl list \<Rightarrow> fl list \<Rightarrow> error + unit \<Rightarrow> bool"


section \<open>numpy helpers\<close>

text \<open>
  An elementwise binary operation on two one-dimensional arrays: equal lengths pair up,
  a one-element operand is broadcast, any other pair of shapes raises ValueError.
\<close>

definition np_binop :: "(fl \<Rightarrow> fl \<Rightarrow> fl) \<Rightarrow> fl list \<Rightarrow> fl list \<Rightarrow> error + fl list" where
  "np_binop f xs ys =
     (if length xs = length ys then Inr (map2 f xs ys)
      else if length xs = 1 then Inr (map (f (hd xs)) ys)
      else if length ys = 1 then Inr (map (\<lambda>x. f x (hd ys)) xs)
      else Inl ValueError)"

text \<open>
  \<open>np.vstack(cols).T\<close>: the columns must have one length; row k then holds entry k of
  each column.
\<close>

definition vstack_T :: "fl list list \<Rightarrow> error + fl list list" where
  "vstack_T cols =
     (if cols = [] \<or> (\<exists>c \<in> set cols. length c \<noteq> length (hd cols)) then Inl ValueError
      else Inr (map (\<lambda>k. map (\<lambda>c. c ! k) cols) [0..<length (hd cols)]))"

section \<open>STEP 2: training data of the base model\<close>

text \<open>\<open>X_base\<close> and \<open>y_base\<close> are the script's \<open>X\<close> and \<open>y\<close>.\<close>

definition X_base :: "arith \<Rightarrow> fl list \<Rightarrow> error + fl list list" where
  "X_base ar signal =
     vstack_T [take (length signal - 2) signal,
               drop 1 (take (length signal - 1) signal),
               map (arr_pow2 ar) (drop 1 (take (length signal - 1) signal))]"

definition y_base :: "fl list \<Rightarrow> fl list" where
  "y_base signal = drop 2 signal"

section \<open>STEP 3: autoregressive base reconstruction\<close>

text \<open>
  The loop body reads \<open>reconstructed_base[-2]\<close> and \<open>reconstructed_base[-1]\<close> of a list
  that starts with two elements and only grows, so neither read can fail.
\<close>

primrec base_loop :: "arith \<Rightarrow> fl \<Rightarrow> fl \<Rightarrow> fl \<Rightarrow> fl \<Rightarrow> nat \<Rightarrow> fl list \<Rightarrow> fl list" where
  "base_loop ar W1 W2 W3 b 0 acc = acc"
| "base_loop ar W1 W2 W3 b (Suc n) acc =
     (let xn1 = acc ! (length acc - 2);
          xn = acc ! (length acc - 1);
          x2 = fpow2 ar xn
      in base_loop ar W1 W2 W3 b n
           (acc @ [fadd ar (fadd ar (fadd ar (fmul ar W1 xn1) (fmul ar W2 xn)) (fmul ar W3 x2)) b]))"

definition reconstructed_base :: "arith \<Rightarrow> fl \<Rightarrow> fl \<Rightarrow> fl \<Rightarrow> fl \<Rightarrow> fl list \<Rightarrow> error + fl list" where
  "reconstructed_base ar W1 W2 W3 b signal =
     (if length signal < 2 then Inl IndexError
      else Inr (base_loop ar W1 W2 W3 b (length signal - 2) [signal ! 0, signal ! 1]))"


section \<open>STEP 4: training data of the mirror residual model\<close>

definition residuals :: "arith \<Rightarrow> fl list \<Rightarrow> fl list \<Rightarrow> error + fl list" where
  "residuals ar signal rb = np_binop (fsub ar) signal rb"

definition X_mirror :: "fl list \<Rightarrow> error + fl list list" where
  "X_mirror signal =
     vstack_T [rev (take (length signal - 2) signal),
               rev (drop 1 (take (length signal - 1) signal))]"

definition y_resid :: "fl list \<Rightarrow> fl list" where
  "y_resid res = rev (drop 2 res)"

section \<open>STEP 5: mirror residual prediction and hybrid signal\<close>

text \<open>
  The loop reads entries i and i+1 of the reversed signal for i below N-2, which are always
  in range. The two leading zeros are Python integers; \<open>np.array\<close> turns them into 0.0.
\<close>

definition resid_pred_loop :: "arith \<Rightarrow> fl \<Rightarrow> fl \<Rightarrow> fl \<Rightarrow> fl list \<Rightarrow> fl list" where
  "resid_pred_loop ar R1 R2 Rb signal =
     fold (\<lambda>i acc. let m1 = rev signal ! i;
                        m2 = rev signal ! (i + 1)
                    in acc @ [fadd ar (fadd ar (fmul ar R1 m1) (fmul ar R2 m2)) Rb])
          [0..<length signal - 2] []"

definition resid_pred :: "arith \<Rightarrow> fl \<Rightarrow> fl \<Rightarrow> fl \<Rightarrow> fl list \<Rightarrow> fl list" where
  "resid_pred ar R1 R2 Rb signal = [Num 0, Num 0] @ rev (resid_pred_loop ar R1 R2 Rb signal)"

definition base_plus_mirror :: "arith \<Rightarrow> fl list \<Rightarrow> fl list \<Rightarrow> error + fl list" where
  "base_plus_mirror ar rb rp = np_binop (fadd ar) rb rp"


section \<open>STEP 6 and STEP 7: delta, quantisation, final signal\<close>

definition scale :: fl where
  "scale = Num 10000"

definition delta :: "arith \<Rightarrow> fl list \<Rightarrow> fl list \<Rightarrow> error + fl list" where
  "delta ar signal hyb = np_binop (fsub ar) signal hyb"

text \<open>\<open>np.round\<close> rounds to the nearest integer, a tie to the even neighbour.\<close>

definition round_half_even :: "real \<Rightarrow> int" where
  "round_half_even r =
     (let f = \<lfloor>r\<rfloor>; d = r - of_int f
      in if d < 1 / 2 then f else if 1 / 2 < d then f + 1 else if even f then f else f + 1)"

definition np_round :: "fl \<Rightarrow> fl" where
  "np_round x = (case x of Num r \<Rightarrow> Num (of_int (round_half_even r)) | _ \<Rightarrow> x)"

text \<open>\<open>np.clip(x, lo, hi)\<close> is \<open>minimum(maximum(x, lo), hi)\<close>; a NaN stays a NaN.\<close>

definition np_clip :: "fl \<Rightarrow> real \<Rightarrow> real \<Rightarrow> fl" where
  "np_clip x lo hi =
     (case x of Num r \<Rightarrow> Num (min (max r lo) hi) | PInf \<Rightarrow> Num hi | MInf \<Rightarrow> Num (min lo hi)
      | NaN \<Rightarrow> NaN)"

text \<open>
  \<open>astype(np.int16)\<close> drops the fraction of a number that int16 can hold; what is stored
  for any other value depends on the platform.
\<close>

definition astype_int16 :: "arith \<Rightarrow> fl \<Rightarrow> 16 word" where
  "astype_int16 ar x =
     (case x of
        Num r \<Rightarrow>
          (let t = (if 0 \<le> r then \<lfloor>r\<rfloor> else \<lceil>r\<rceil>)
           in if - 32768 \<le> t \<and> t \<le> 32767 then word_of_int t else bad_int16 ar x)
      | _ \<Rightarrow> bad_int16 ar x)"

definition delta_q :: "arith \<Rightarrow> fl \<Rightarrow> fl list \<Rightarrow> 16 word list" where
  "delta_q ar sc d =
     map (\<lambda>x. astype_int16 ar (np_clip (np_round (fmul ar x sc)) (- 32768) 32767)) d"

text \<open>
  \<open>delta_q.astype(np.float32) / scale\<close>: every int16 is a float32, the division is a
  float32 division. Adding the float32 array to a float64 array widens it without change.
\<close>

definition dequantized :: "arith \<Rightarrow> fl \<Rightarrow> 16 word list \<Rightarrow> fl list" where
  "dequantized ar sc dq = map (\<lambda>q. fdiv32 ar (Num (of_int (sint q))) sc) dq"

definition reconstructed_final :: "arith \<Rightarrow> fl \<Rightarrow> fl list \<Rightarrow> 16 word list \<Rightarrow> error + fl list" where
  "reconstructed_final ar sc hyb dq = np_binop (fadd ar) hyb (dequantized ar sc dq)"

section \<open>STEP 9: model parameters\<close>

definition weights :: "arith \<Rightarrow> fl \<Rightarrow> fl \<Rightarrow> fl \<Rightarrow> fl \<Rightarrow> fl \<Rightarrow> fl \<Rightarrow> fl \<Rightarrow> fl list" where
  "weights ar W1 W2 W3 b R1 R2 Rb = map (to_f16 ar) [W1, W2, W3, b, R1, R2, Rb]"

section \<open>The script as a whole\<close>

text \<open>
  \<open>W1, W2, W3 = henon_model.coef_\<close> and \<open>R1, R2 = residual_model.coef_\<close> raise ValueError
  unless the array has exactly that many entries.
\<close>

definition unpack3 :: "fl list \<Rightarrow> error + fl \<times> fl \<times> fl" where
  "unpack3 xs = (case xs of [a, b, c] \<Rightarrow> Inr (a, b, c) | _ \<Rightarrow> Inl ValueError)"

definition unpack2 :: "fl list \<Rightarrow> error + fl \<times> fl" where
  "unpack2 xs = (case xs of [a, b] \<Rightarrow> Inr (a, b) | _ \<Rightarrow> Inl ValueError)"

text \<open>
  From the fitted base model to the training data of the mirror model (the unpacking that
  closes STEP 2, STEP 3, and STEP 4 up to the second fit).
\<close>

definition step3_4 :: "arith \<Rightarrow> linmodel \<Rightarrow> fl list \<Rightarrow> error + fl list \<times> fl list list \<times> fl list" where
  "step3_4 ar m1 signal =
     (case unpack3 (coef m1) of Inl e \<Rightarrow> Inl e
      | Inr (W1, W2, W3) \<Rightarrow>
     (case reconstructed_base ar W1 W2 W3 (intercept m1) signal of Inl e \<Rightarrow> Inl e
      | Inr rb \<Rightarrow>
     (case residuals ar signal rb of Inl e \<Rightarrow> Inl e
      | Inr res \<Rightarrow>
     (case X_mirror signal of Inl e \<Rightarrow> Inl e
      | Inr Xm \<Rightarrow> Inr (rb, Xm, y_resid res)))))"

text \<open>
  From the fitted mirror model to the quantised delta (the unpacking that closes STEP 4,
  STEP 5, and STEP 6 up to the quantisation).
\<close>

definition step5_6 :: "arith \<Rightarrow> linmodel \<Rightarrow> fl list \<Rightarrow> fl list \<Rightarrow> error + fl list \<times> 16 word list" where
  "step5_6 ar m2 signal rb =
     (case unpack2 (coef m2) of Inl e \<Rightarrow> Inl e
      | Inr (R1, R2) \<Rightarrow>
     (case base_plus_mirror ar rb (resid_pred ar R1 R2 (intercept m2) signal) of Inl e \<Rightarrow> Inl e
      | Inr hyb \<Rightarrow>
     (case delta ar signal hyb of Inl e \<Rightarrow> Inl e
      | Inr d \<Rightarrow> Inr (hyb, delta_q ar scale d))))"

record codec_output =
  henon_model :: linmodel
  residual_model :: linmodel
  final_signal :: "fl list"
  resid_compressed :: bytes
  weights_compressed :: bytes

text \<open>
  A run of the script on a signal, STEP 2 to STEP 9 in the order of the source: it ends
  with the first exception raised, or with the two fitted models, the final signal and the
  two compressed payloads.
\<close>

inductive chaos_codec :: "arith \<Rightarrow> caps \<Rightarrow> fl list \<Rightarrow> error + codec_output \<Rightarrow> bool"
  for ar :: arith and cp :: caps and signal :: "fl list" where
  features_raise:
    "X_base ar signal = Inl e \<Longrightarrow> chaos_codec ar cp signal (Inl e)"
| fit_base_raises:
    "X_base ar signal = Inr X \<Longrightarrow> fit cp X (y_base signal) (Inl e)
     \<Longrightarrow> chaos_codec ar cp signal (Inl e)"
| base_raises:
    "X_base ar signal = Inr X \<Longrightarrow> fit cp X (y_base signal) (Inr m1)
     \<Longrightarrow> step3_4 ar m1 signal = Inl e
     \<Longrightarrow> chaos_codec ar cp signal (Inl e)"
| fit_mirror_raises:
    "X_base ar signal = Inr X \<Longrightarrow> fit cp X (y_base signal) (Inr m1)
     \<Longrightarrow> step3_4 ar m1 signal = Inr (rb, Xm, yr) \<Longrightarrow> fit cp Xm yr (Inl e)
     \<Longrightarrow> chaos_codec ar cp signal (Inl e)"
| hybrid_raises:
    "X_base ar signal = Inr X \<Longrightarrow> fit cp X (y_base signal) (Inr m1)
     \<Longrightarrow> step3_4 ar m1 signal = Inr (rb, Xm, yr) \<Longrightarrow> fit cp Xm yr (Inr m2)
     \<Longrightarrow> step5_6 ar m2 signal rb = Inl e
     \<Longrightarrow> chaos_codec ar cp signal (Inl e)"
| final_raises:
    "X_base ar signal = Inr X \<Longrightarrow> fit cp X (y_base signal) (Inr m1)
     \<Longrightarrow> step3_4 ar m1 signal = Inr (rb, Xm, yr) \<Longrightarrow> fit cp Xm yr (Inr m2)
     \<Longrightarrow> step5_6 ar m2 signal rb = Inr (hyb, dq)
     \<Longrightarrow> dumps_resid cp (dq, scale) resid_payload \<Longrightarrow> compress cp resid_payload rc
     \<Longrightarrow> reconstructed_final ar scale hyb dq = Inl e
     \<Longrightarrow> chaos_codec ar cp signal (Inl e)"
| metrics_raise:
    "X_base ar signal = Inr X \<Longrightarrow> fit cp X (y_base signal) (Inr m1)
     \<Longrightarrow> step3_4 ar m1 signal = Inr (rb, Xm, yr) \<Longrightarrow> fit cp Xm yr (Inr m2)
     \<Longrightarrow> step5_6 ar m2 signal rb = Inr (hyb, dq)
     \<Longrightarrow> dumps_resid cp (dq, scale) resid_payload \<Longrightarrow> compress cp resid_payload rc
     \<Longrightarrow> reconstructed_final ar scale hyb dq = Inr fin
     \<Longrightarrow> metrics cp signal fin (Inl e)
     \<Longrightarrow> chaos_codec ar cp signal (Inl e)"
| completes:
    "X_base ar signal = Inr X \<Longrightarrow> fit cp X (y_base signal) (Inr m1)
     \<Longrightarrow> step3_4 ar m1 signal = Inr (rb, Xm, yr) \<Longrightarrow> fit cp Xm yr (Inr m2)
     \<Longrightarrow> step5_6 ar m2 signal rb = Inr (hyb, dq)
     \<Longrightarrow> dumps_resid cp (dq, scale) resid_payload \<Longrightarrow> compress cp resid_payload rc
     \<Longrightarrow> reconstructed_final ar scale hyb dq = Inr fin
     \<Longrightarrow> metrics cp signal fin (Inr ())
     \<Longrightarrow> unpack3 (coef m1) = Inr (W1, W2, W3) \<Longrightarrow> unpack2 (coef m2) = Inr (R1, R2)
     \<Longrightarrow> dumps_weights cp (weights ar W1 W2 W3 (intercept m1) R1 R2 (intercept m2)) weights_payload
     \<Longrightarrow> compress cp weights_payload wc
     \<Longrightarrow> chaos_codec ar cp signal
           (Inr \<lparr> henon_model = m1, residual_model = m2, final_signal = fin,
                   resid_compressed = rc, weights_compressed = wc \<rparr>)"

definition is_finite :: "fl \<Rightarrow> bool" where
  "is_finite x = (case x of Num r \<Rightarrow> True | _ \<Rightarrow> False)"

text \<open>
  The input validation of the fitting routine of the source's library: a training set with
  no row, or with an entry that is not finite, is refused with ValueError.
\<close>

definition fit_validates :: "caps \<Rightarrow> bool" where
  "fit_validates cp \<longleftrightarrow>
     (\<forall>X y r. fit cp X y r
        \<and> (X = [] \<or> (\<exists>row \<in> set X. \<exists>v \<in> set row. \<not> is_finite v) \<or> (\<exists>v \<in> set y. \<not> is_finite v))
        \<longrightarrow> r = Inl ValueError)"

text \<open>
  Library calls to run the script on concrete inputs. The fitting routine validates its
  input first, raising ValueError as the library of the source does, and answers a valid
  training set of width n with the model whose coefficients are all n and whose intercept
  is n + 4. The serialisers write the low and the high byte of each stored integer, and
  the integer part of each weight as one byte; compression leaves the bytes as they are.
\<close>

definition strict_caps :: caps where
  "strict_caps = \<lparr> fit = (\<lambda>X y r.
                     r = (if X = [] \<or> (\<exists>row \<in> set X. \<exists>v \<in> set row. \<not> is_finite v)
                             \<or> (\<exists>v \<in> set y. \<not> is_finite v)
                          then Inl ValueError
                          else Inr \<lparr> coef = map (\<lambda>_. Num (real (length (hd X)))) (hd X),
                                     intercept = Num (real (length (hd X)) + 4) \<rparr>)),
                dumps_resid = (\<lambda>x p. p = concat (map (\<lambda>q. [ucast q, ucast (drop_bit 8 q)]) (fst x))),
                dumps_weights = (\<lambda>x p. p = map (\<lambda>v. case v of Num r \<Rightarrow> word_of_int \<lfloor>r\<rfloor> | _ \<Rightarrow> 255) x),
                compress = (\<lambda>p c. c = p),
                metrics = (\<lambda>a b r. r = Inr ()) \<rparr>"

text \<open>
  An arithmetic without rounding, to run the definitions on concrete inputs.
\<close>

definition exact2 :: "(real \<Rightarrow> real \<Rightarrow> real) \<Rightarrow> fl \<Rightarrow> fl \<Rightarrow> fl" where
  "exact2 f x y = (case x of Num a \<Rightarrow> (case y of Num c \<Rightarrow> Num (f a c) | _ \<Rightarrow> NaN) | _ \<Rightarrow> NaN)"

definition exact_arith :: arith where
  "exact_arith = \<lparr> fadd = exact2 (+), fsub = exact2 (-), fmul = exact2 (*),
                   fpow2 = (\<lambda>x. exact2 (*) x x), arr_pow2 = (\<lambda>x. exact2 (*) x x),
                   fdiv32 = (\<lambda>x y. if y = Num 0 then NaN else exact2 (/) x y),
                   to_f16 = (\<lambda>x. x), bad_int16 = (\<lambda>x. 0) \<rparr>"


section \<open>Properties of the base reconstruction\<close>

lemma length_base_loop: "length (base_loop ar W1 W2 W3 b n acc) = length acc + n"
  by (induction n arbitrary: acc) (simp_all add: Let_def)

lemma base_loop_prefix: "i < length acc \<Longrightarrow> base_loop ar W1 W2 W3 b n acc ! i = acc ! i"
  by (induction n arbitrary: acc) (simp_all add: Let_def nth_append)

lemma base_loop_recurrence:
  assumes "2 \<le> length acc" and "length acc \<le> i" and "i < length acc + n"
  shows "base_loop ar W1 W2 W3 b n acc ! i =
         fadd ar (fadd ar (fadd ar (fmul ar W1 (base_loop ar W1 W2 W3 b n acc ! (i - 2)))
                                   (fmul ar W2 (base_loop ar W1 W2 W3 b n acc ! (i - 1))))
                          (fmul ar W3 (fpow2 ar (base_loop ar W1 W2 W3 b n acc ! (i - 1)))))
                 b"
  using assms
proof (induction n arbitrary: acc)
  case 0
  then show ?case by simp
next
  case (Suc n)
  let ?v = "fadd ar (fadd ar (fadd ar (fmul ar W1 (acc ! (length acc - 2)))
                                      (fmul ar W2 (acc ! (length acc - 1))))
                             (fmul ar W3 (fpow2 ar (acc ! (length acc - 1)))))
                    b"
  let ?acc' = "acc @ [?v]"
  have unfold: "base_loop ar W1 W2 W3 b (Suc n) acc = base_loop ar W1 W2 W3 b n ?acc'"
    by (simp add: Let_def)
  show ?case
  proof (cases "i = length acc")
    case True
    have a: "base_loop ar W1 W2 W3 b n ?acc' ! i = ?v"
      using True by (simp add: base_loop_prefix)
    have lt: "length acc - 2 < length acc" "length acc - 1 < length acc"
      using Suc.prems(1) by arith+
    have b: "base_loop ar W1 W2 W3 b n ?acc' ! (i - 2) = acc ! (length acc - 2)"
      using True lt by (simp add: base_loop_prefix nth_append)
    have c: "base_loop ar W1 W2 W3 b n ?acc' ! (i - 1) = acc ! (length acc - 1)"
      using True lt by (simp add: base_loop_prefix nth_append)
    show ?thesis unfolding unfold a b c ..
  next
    case False
    with Suc.prems have "2 \<le> length ?acc'" "length ?acc' \<le> i" "i < length ?acc' + n"
      by simp_all
    from Suc.IH [OF this] show ?thesis unfolding unfold .
  qed
qed

text \<open>
  Claim C2. For a signal of length N at least 3, the base reconstruction returns a list of
  length N; its entries 0 and 1 are the signal's; every later entry i is
  W1*out[i-2] + W2*out[i-1] + W3*out[i-1]**2 + b, evaluated left to right on the
  reconstruction's own earlier entries; and the result is the same for every signal that has
  this length and these two first samples, so no other sample of the signal is read.
\<close>

theorem reconstructed_base_autoregressive:
  assumes "3 \<le> length signal"
  shows "\<exists>out. reconstructed_base ar W1 W2 W3 b signal = Inr out
           \<and> length out = length signal
           \<and> out ! 0 = signal ! 0 \<and> out ! 1 = signal ! 1
           \<and> (\<forall>i. 2 \<le> i \<and> i < length signal \<longrightarrow>
                 out ! i = fadd ar (fadd ar (fadd ar (fmul ar W1 (out ! (i - 2)))
                                                    (fmul ar W2 (out ! (i - 1))))
                                           (fmul ar W3 (fpow2 ar (out ! (i - 1)))))
                                   b)
           \<and> (\<forall>other. length other = length signal \<and> other ! 0 = signal ! 0
                        \<and> other ! 1 = signal ! 1
                 \<longrightarrow> reconstructed_base ar W1 W2 W3 b other = Inr out)"
proof -
  let ?out = "base_loop ar W1 W2 W3 b (length signal - 2) [signal ! 0, signal ! 1]"
  have r: "reconstructed_base ar W1 W2 W3 b signal = Inr ?out"
    using assms by (simp add: reconstructed_base_def)
  have l: "length ?out = length signal"
    using assms by (simp add: length_base_loop)
  have z: "?out ! 0 = signal ! 0" by (simp add: base_loop_prefix)
  have o: "?out ! 1 = signal ! 1" by (simp add: base_loop_prefix)
  have rec: "\<forall>i. 2 \<le> i \<and> i < length signal \<longrightarrow>
                 ?out ! i = fadd ar (fadd ar (fadd ar (fmul ar W1 (?out ! (i - 2)))
                                                    (fmul ar W2 (?out ! (i - 1))))
                                           (fmul ar W3 (fpow2 ar (?out ! (i - 1)))))
                                   b"
  proof (intro allI impI)
    fix i assume i: "2 \<le> i \<and> i < length signal"
    have "2 \<le> length [signal ! 0, signal ! 1]" by simp
    moreover have "length [signal ! 0, signal ! 1] \<le> i" using i by simp
    moreover have "i < length [signal ! 0, signal ! 1] + (length signal - 2)"
      using i assms by auto
    ultimately show "?out ! i = fadd ar (fadd ar (fadd ar (fmul ar W1 (?out ! (i - 2)))
                                                    (fmul ar W2 (?out ! (i - 1))))
                                           (fmul ar W3 (fpow2 ar (?out ! (i - 1)))))
                                   b"
      by (rule base_loop_recurrence)
  qed
  have oth: "\<forall>other. length other = length signal \<and> other ! 0 = signal ! 0
                        \<and> other ! 1 = signal ! 1
                 \<longrightarrow> reconstructed_base ar W1 W2 W3 b other = Inr ?out"
    using assms by (simp add: reconstructed_base_def)
  from r l z o rec oth show ?thesis by blast
qed

theorem reconstructed_base_autoregressive_witness:
  "3 \<le> length [Num 1, Num 2, Num 5]
   \<and> (\<exists>out. reconstructed_base exact_arith (Num 1) (Num 1) (Num 1) (Num 1) [Num 1, Num 2, Num 5] = Inr out
         \<and> length out = 3 \<and> out ! 0 = Num 1 \<and> out ! 1 = Num 2 \<and> out ! 2 = Num 8)"
  using reconstructed_base_autoregressive [of "[Num 1, Num 2, Num 5]" exact_arith "Num 1" "Num 1" "Num 1" "Num 1"]
  by (auto simp add: exact_arith_def exact2_def)

section \<open>Properties of the mirror training data\<close>


lemma vstack_T_two:
  "length c2 = length c1 \<Longrightarrow> vstack_T [c1, c2] = Inr (map (\<lambda>k. [c1 ! k, c2 ! k]) [0..<length c1])"
  by (simp add: vstack_T_def)

lemma mirror_col1_nth:
  assumes "k < length signal - 2"
  shows "rev (take (length signal - 2) signal) ! k = signal ! (length signal - 3 - k)"
proof -
  have "rev (take (length signal - 2) signal) ! k
          = take (length signal - 2) signal ! (length (take (length signal - 2) signal) - Suc k)"
    using assms by (simp add: rev_nth)
  also have "length (take (length signal - 2) signal) - Suc k = length signal - 3 - k"
    using assms by simp
  also have "take (length signal - 2) signal ! (length signal - 3 - k) = signal ! (length signal - 3 - k)"
    using assms by simp
  finally show ?thesis .
qed

lemma mirror_col2_nth:
  assumes "k < length signal - 2"
  shows "rev (drop 1 (take (length signal - 1) signal)) ! k = signal ! (length signal - 2 - k)"
proof -
  let ?c = "drop 1 (take (length signal - 1) signal)"
  have l: "length ?c = length signal - 2" by simp
  have "rev ?c ! k = ?c ! (length ?c - Suc k)"
    using assms l by (simp add: rev_nth)
  also have "length ?c - Suc k = length signal - 3 - k" using assms by simp
  also have "?c ! (length signal - 3 - k) = take (length signal - 1) signal ! (1 + (length signal - 3 - k))"
    using assms by simp
  also have "1 + (length signal - 3 - k) = length signal - 2 - k" using assms by arith
  also have "take (length signal - 1) signal ! (length signal - 2 - k) = signal ! (length signal - 2 - k)"
    using assms by simp
  finally show ?thesis .
qed

lemma X_mirror_rows:
  "X_mirror signal =
     Inr (map (\<lambda>k. [rev (take (length signal - 2) signal) ! k,
                      rev (drop 1 (take (length signal - 1) signal)) ! k]) [0..<length signal - 2])"
proof -
  have "length (rev (drop 1 (take (length signal - 1) signal))) = length (rev (take (length signal - 2) signal))"
    by simp
  from vstack_T_two [OF this] show ?thesis by (simp add: X_mirror_def)
qed

lemma y_resid_nth:
  assumes "k < length res - 2"
  shows "y_resid res ! k = res ! (length res - 1 - k)"
proof -
  have "y_resid res ! k = drop 2 res ! (length (drop 2 res) - Suc k)"
    using assms by (simp add: y_resid_def rev_nth)
  also have "length (drop 2 res) - Suc k = length res - 3 - k" by simp
  also have "drop 2 res ! (length res - 3 - k) = res ! (2 + (length res - 3 - k))"
    using assms by simp
  also have "2 + (length res - 3 - k) = length res - 1 - k" using assms by arith
  finally show ?thesis .
qed

text \<open>
  Claim C1, amended. For a signal of length N at least 3, the mirror training set pairs row k
  (k below N-2) of the feature matrix, which is [x[N-3-k], x[N-2-k]], with the target
  residual[N-1-k]: the two samples of a row keep their order, and the rows as well as the
  targets are listed in reverse sample order.
\<close>

theorem X_mirror_reversed_rows:
  assumes "3 \<le> length signal" and "length res = length signal"
  shows "\<exists>rows. X_mirror signal = Inr rows
           \<and> length rows = length signal - 2
           \<and> length (y_resid res) = length signal - 2
           \<and> (\<forall>k. k < length signal - 2 \<longrightarrow>
                 rows ! k = [signal ! (length signal - 3 - k), signal ! (length signal - 2 - k)]
               \<and> y_resid res ! k = res ! (length signal - 1 - k))"
proof -
  let ?rows = "map (\<lambda>k. [rev (take (length signal - 2) signal) ! k,
                      rev (drop 1 (take (length signal - 1) signal)) ! k]) [0..<length signal - 2]"
  have a: "X_mirror signal = Inr ?rows" by (rule X_mirror_rows)
  have b: "length ?rows = length signal - 2" by simp
  have c: "length (y_resid res) = length signal - 2" using assms by (simp add: y_resid_def)
  have d: "\<forall>k. k < length signal - 2 \<longrightarrow>
                 ?rows ! k = [signal ! (length signal - 3 - k), signal ! (length signal - 2 - k)]
               \<and> y_resid res ! k = res ! (length signal - 1 - k)"
  proof (intro allI impI)
    fix k assume k: "k < length signal - 2"
    have "?rows ! k = [rev (take (length signal - 2) signal) ! k,
                       rev (drop 1 (take (length signal - 1) signal)) ! k]"
      using k by simp
    then have r: "?rows ! k = [signal ! (length signal - 3 - k), signal ! (length signal - 2 - k)]"
      unfolding mirror_col1_nth [OF k] mirror_col2_nth [OF k] .
    have "k < length res - 2" using k assms(2) by simp
    from y_resid_nth [OF this] have y: "y_resid res ! k = res ! (length signal - 1 - k)"
      using assms(2) by simp
    from r y show "?rows ! k = [signal ! (length signal - 3 - k), signal ! (length signal - 2 - k)]
               \<and> y_resid res ! k = res ! (length signal - 1 - k)" ..
  qed
  from a b c d show ?thesis by blast
qed

text \<open>
  Claim C1 as stated fails. The feature rows are not in forward sample order: for the
  signal 1, 2, 3, 4 the forward rows would be [1, 2], [2, 3], and the code builds
  [2, 3], [1, 2].
\<close>

theorem X_mirror_forward_counterexample:
  "X_mirror [Num 1, Num 2, Num 3, Num 4] = Inr [[Num 2, Num 3], [Num 1, Num 2]]
   \<and> X_mirror [Num 1, Num 2, Num 3, Num 4] \<noteq> Inr [[Num 1, Num 2], [Num 2, Num 3]]"
  by (simp add: X_mirror_def vstack_T_def upt_rec)

theorem X_mirror_reversed_rows_witness:
  "3 \<le> length [Num 1, Num 2, Num 3, Num 4] \<and> length [Num 0, Num 0, Num 5, Num 6] = length [Num 1, Num 2, Num 3, Num 4]
   \<and> (\<exists>rows. X_mirror [Num 1, Num 2, Num 3, Num 4] = Inr rows
           \<and> rows ! 0 = [Num 2, Num 3] \<and> rows ! 1 = [Num 1, Num 2]
           \<and> y_resid [Num 0, Num 0, Num 5, Num 6] ! 0 = Num 6
           \<and> y_resid [Num 0, Num 0, Num 5, Num 6] ! 1 = Num 5)"
  using X_mirror_reversed_rows [of "[Num 1, Num 2, Num 3, Num 4]" "[Num 0, Num 0, Num 5, Num 6]"]
  by (simp add: X_mirror_def vstack_T_def upt_rec y_resid_def)


section \<open>Properties of the mirror prediction\<close>


lemma fold_snoc_map: "fold (\<lambda>i acc. acc @ [g i]) is acc0 = acc0 @ map g is"
  by (induction "is" arbitrary: acc0) simp_all

lemma resid_pred_loop_map:
  "resid_pred_loop ar R1 R2 Rb signal =
     map (\<lambda>i. fadd ar (fadd ar (fmul ar R1 (rev signal ! i)) (fmul ar R2 (rev signal ! (i + 1)))) Rb)
         [0..<length signal - 2]"
  unfolding resid_pred_loop_def Let_def by (simp add: fold_snoc_map)

lemma length_resid_pred_loop: "length (resid_pred_loop ar R1 R2 Rb signal) = length signal - 2"
  by (simp add: resid_pred_loop_map)

lemma resid_pred_loop_nth:
  "i < length signal - 2 \<Longrightarrow>
   resid_pred_loop ar R1 R2 Rb signal ! i =
     fadd ar (fadd ar (fmul ar R1 (rev signal ! i)) (fmul ar R2 (rev signal ! (i + 1)))) Rb"
  by (simp add: resid_pred_loop_map)

lemma length_resid_pred: "2 \<le> length signal \<Longrightarrow> length (resid_pred ar R1 R2 Rb signal) = length signal"
  by (simp add: resid_pred_def length_resid_pred_loop)

lemma resid_pred_tail:
  assumes "i < length signal - 2"
  shows "resid_pred ar R1 R2 Rb signal ! (length signal - 1 - i) = resid_pred_loop ar R1 R2 Rb signal ! i"
proof -
  let ?raw = "resid_pred_loop ar R1 R2 Rb signal"
  have l: "length ?raw = length signal - 2" by (rule length_resid_pred_loop)
  have idx: "length signal - 1 - i = 2 + (length signal - 3 - i)" using assms by arith
  have "resid_pred ar R1 R2 Rb signal ! (length signal - 1 - i) = rev ?raw ! (length signal - 3 - i)"
    unfolding resid_pred_def idx by (simp add: nth_append)
  also have "\<dots> = ?raw ! (length ?raw - Suc (length signal - 3 - i))"
    using assms l by (simp add: rev_nth)
  also have "length ?raw - Suc (length signal - 3 - i) = i" using assms l by arith
  finally show ?thesis .
qed

text \<open>
  Claim C3. For a signal of length N at least 3, the mirror prediction has length N and its
  entries 0 and 1 are zero; the loop produces N-2 raw predictions, raw prediction i being
  R1*reversed_signal[i] + R2*reversed_signal[i+1] + Rb on the reversed true signal; and the
  raw predictions are stored in reverse, raw prediction i at position N-1-i of the output.
\<close>

theorem resid_pred_mirror:
  assumes "3 \<le> length signal"
  shows "length (resid_pred ar R1 R2 Rb signal) = length signal
       \<and> resid_pred ar R1 R2 Rb signal ! 0 = Num 0
       \<and> resid_pred ar R1 R2 Rb signal ! 1 = Num 0
       \<and> length (resid_pred_loop ar R1 R2 Rb signal) = length signal - 2
       \<and> (\<forall>i. i < length signal - 2 \<longrightarrow>
             resid_pred_loop ar R1 R2 Rb signal ! i =
               fadd ar (fadd ar (fmul ar R1 (rev signal ! i)) (fmul ar R2 (rev signal ! (i + 1)))) Rb
           \<and> resid_pred ar R1 R2 Rb signal ! (length signal - 1 - i) =
               resid_pred_loop ar R1 R2 Rb signal ! i)"
proof -
  have len: "length (resid_pred ar R1 R2 Rb signal) = length signal"
    using assms by (simp add: length_resid_pred)
  have z: "resid_pred ar R1 R2 Rb signal ! 0 = Num 0" "resid_pred ar R1 R2 Rb signal ! 1 = Num 0"
    by (simp_all add: resid_pred_def)
  have raw: "\<forall>i. i < length signal - 2 \<longrightarrow>
             resid_pred_loop ar R1 R2 Rb signal ! i =
               fadd ar (fadd ar (fmul ar R1 (rev signal ! i)) (fmul ar R2 (rev signal ! (i + 1)))) Rb
           \<and> resid_pred ar R1 R2 Rb signal ! (length signal - 1 - i) =
               resid_pred_loop ar R1 R2 Rb signal ! i"
    using resid_pred_loop_nth resid_pred_tail by blast
  from len z raw length_resid_pred_loop show ?thesis by blast
qed

theorem resid_pred_mirror_witness:
  "3 \<le> length [Num 1, Num 10, Num 100]
   \<and> length (resid_pred exact_arith (Num 2) (Num 3) (Num 1) [Num 1, Num 10, Num 100]) = 3
   \<and> resid_pred exact_arith (Num 2) (Num 3) (Num 1) [Num 1, Num 10, Num 100] ! 0 = Num 0
   \<and> resid_pred exact_arith (Num 2) (Num 3) (Num 1) [Num 1, Num 10, Num 100] ! 1 = Num 0"
  using resid_pred_mirror [of "[Num 1, Num 10, Num 100]" exact_arith "Num 2" "Num 3" "Num 1"]
  by simp

text \<open>
  Claim C9. For a signal of length N at least 3 and an index i from 2 to N-1, entry i of the
  mirror prediction is R1*signal[i] + R2*signal[i-1] + Rb.
\<close>

theorem resid_pred_forward:
  assumes "3 \<le> length signal" and "2 \<le> i" and "i \<le> length signal - 1"
  shows "resid_pred ar R1 R2 Rb signal ! i =
           fadd ar (fadd ar (fmul ar R1 (signal ! i)) (fmul ar R2 (signal ! (i - 1)))) Rb"
proof -
  let ?j = "length signal - 1 - i"
  have j: "?j < length signal - 2" using assms by arith
  have i: "i = length signal - 1 - ?j" using assms by arith
  have "resid_pred ar R1 R2 Rb signal ! i = resid_pred_loop ar R1 R2 Rb signal ! ?j"
    using resid_pred_tail [OF j, of ar R1 R2 Rb] i by simp
  also have "\<dots> = fadd ar (fadd ar (fmul ar R1 (rev signal ! ?j)) (fmul ar R2 (rev signal ! (?j + 1)))) Rb"
    by (rule resid_pred_loop_nth [OF j])
  also have "rev signal ! ?j = signal ! i" using assms by (simp add: rev_nth)
  also have "rev signal ! (?j + 1) = signal ! (i - 1)"
  proof -
    have "?j + 1 < length signal" using assms by arith
    then have "rev signal ! (?j + 1) = signal ! (length signal - Suc (?j + 1))" by (rule rev_nth)
    also have "length signal - Suc (?j + 1) = i - 1" using assms by arith
    finally show ?thesis .
  qed
  finally show ?thesis .
qed


theorem resid_pred_forward_witness:
  "3 \<le> length [Num 1, Num 10, Num 100] \<and> (2::nat) \<le> 2 \<and> 2 \<le> length [Num 1, Num 10, Num 100] - 1
   \<and> resid_pred exact_arith (Num 2) (Num 3) (Num 1) [Num 1, Num 10, Num 100] ! 2 = Num 231"
  using resid_pred_forward [of "[Num 1, Num 10, Num 100]" 2 exact_arith "Num 2" "Num 3" "Num 1"]
  by (simp add: exact_arith_def exact2_def)


section \<open>Properties of the quantiser\<close>



lemma round_half_even_upper:
  assumes "32767.5 \<le> r"
  shows "32768 \<le> round_half_even r"
proof -
  have f: "32767 \<le> \<lfloor>r\<rfloor>" using assms by (simp add: le_floor_iff)
  show ?thesis
  proof (cases "\<lfloor>r\<rfloor> = 32767")
    case True
    then have "1 / 2 \<le> r - of_int \<lfloor>r\<rfloor>" using assms by simp
    then show ?thesis using True by (simp add: round_half_even_def Let_def)
  next
    case False
    with f have "32768 \<le> \<lfloor>r\<rfloor>" by linarith
    then show ?thesis by (simp add: round_half_even_def Let_def)
  qed
qed

lemma round_half_even_lower:
  assumes "r \<le> - 32768.5"
  shows "round_half_even r \<le> - 32768"
proof -
  have "r < - 32768" using assms by simp
  then have f: "\<lfloor>r\<rfloor> \<le> - 32769" by (simp add: floor_less_iff flip: zle_diff1_eq) 
  show ?thesis
  proof (cases "\<lfloor>r\<rfloor> = - 32769")
    case True
    then have "r - of_int \<lfloor>r\<rfloor> \<le> 1 / 2" using assms by simp
    then show ?thesis using True by (simp add: round_half_even_def Let_def)
  next
    case False
    with f have "\<lfloor>r\<rfloor> \<le> - 32770" by linarith
    then show ?thesis by (simp add: round_half_even_def Let_def)
  qed
qed


lemma quantise_Num:
  "sint (astype_int16 ar (np_clip (np_round (Num r)) (- 32768) 32767)) = min (max (round_half_even r) (- 32768)) 32767"
proof -
  let ?c = "min (max (round_half_even r) (- 32768)) 32767"
  have c: "np_clip (np_round (Num r)) (- 32768) 32767 = Num (of_int ?c)"
    by (simp add: np_clip_def np_round_def)
  have t: "(if 0 \<le> (of_int ?c :: real) then \<lfloor>(of_int ?c :: real)\<rfloor> else \<lceil>(of_int ?c :: real)\<rceil>) = ?c"
    by simp
  have r: "- 32768 \<le> ?c \<and> ?c \<le> 32767" by simp
  have "astype_int16 ar (Num (of_int ?c)) = word_of_int ?c"
    unfolding astype_int16_def fl.case Let_def t using r by simp
  moreover have "sint (word_of_int ?c :: 16 word) = ?c"
    using r by (simp add: sint_sbintrunc' signed_take_bit_int_eq_self)
  ultimately show ?thesis unfolding c by simp
qed


lemma quantise_PInf:
  "sint (astype_int16 ar (np_clip (np_round PInf) (- 32768) 32767)) = 32767"
  by (simp add: np_round_def np_clip_def astype_int16_def)

lemma quantise_MInf:
  "sint (astype_int16 ar (np_clip (np_round MInf) (- 32768) 32767)) = - 32768"
  by (simp add: np_round_def np_clip_def astype_int16_def)

lemma delta_q_nth:
  "i < length d \<Longrightarrow>
   delta_q ar sc d ! i = astype_int16 ar (np_clip (np_round (fmul ar (d ! i) sc)) (- 32768) 32767)"
  by (simp add: delta_q_def)

lemma sint16_range: "- 32768 \<le> sint (q :: 16 word) \<and> sint q \<le> 32767"
  using sint_ge [of q] sint_lt [of q] by simp

text \<open>
  Claim C4. The quantiser keeps the length; every stored integer lies in [-32768, 32767];
  where the product delta[i]*S is a number r, the stored integer is round(r), ties to even,
  clamped to [-32768, 32767], so it is 32767 when r is at least 32767.5 and -32768 when r is
  at most -32768.5; an infinite product is stored as the bound on its side.
\<close>

theorem delta_q_clamped:
  "length (delta_q ar sc d) = length d
   \<and> (\<forall>i. i < length d \<longrightarrow>
         - 32768 \<le> sint (delta_q ar sc d ! i) \<and> sint (delta_q ar sc d ! i) \<le> 32767
       \<and> (\<forall>r. fmul ar (d ! i) sc = Num r \<longrightarrow>
              sint (delta_q ar sc d ! i) = min (max (round_half_even r) (- 32768)) 32767
            \<and> (32767.5 \<le> r \<longrightarrow> sint (delta_q ar sc d ! i) = 32767)
            \<and> (r \<le> - 32768.5 \<longrightarrow> sint (delta_q ar sc d ! i) = - 32768))
       \<and> (fmul ar (d ! i) sc = PInf \<longrightarrow> sint (delta_q ar sc d ! i) = 32767)
       \<and> (fmul ar (d ! i) sc = MInf \<longrightarrow> sint (delta_q ar sc d ! i) = - 32768))"
proof (intro conjI allI impI)
  show "length (delta_q ar sc d) = length d" by (simp add: delta_q_def)
next
  fix i show "- 32768 \<le> sint (delta_q ar sc d ! i)" using sint16_range by blast
next
  fix i show "sint (delta_q ar sc d ! i) \<le> 32767" using sint16_range by blast
next
  fix i r assume "i < length d" "fmul ar (d ! i) sc = Num r"
  then show "sint (delta_q ar sc d ! i) = min (max (round_half_even r) (- 32768)) 32767"
    by (simp add: delta_q_nth quantise_Num)
next
  fix i r assume "i < length d" "fmul ar (d ! i) sc = Num r" "32767.5 \<le> r"
  then show "sint (delta_q ar sc d ! i) = 32767"
    using round_half_even_upper [of r] by (simp add: delta_q_nth quantise_Num)
next
  fix i r assume "i < length d" "fmul ar (d ! i) sc = Num r" "r \<le> - 32768.5"
  then show "sint (delta_q ar sc d ! i) = - 32768"
    using round_half_even_lower [of r] by (simp add: delta_q_nth quantise_Num)
next
  fix i assume "i < length d" "fmul ar (d ! i) sc = PInf"
  then show "sint (delta_q ar sc d ! i) = 32767"
    by (simp add: delta_q_nth quantise_PInf)
next
  fix i assume "i < length d" "fmul ar (d ! i) sc = MInf"
  then show "sint (delta_q ar sc d ! i) = - 32768"
    by (simp add: delta_q_nth quantise_MInf)
qed

theorem delta_q_clamped_witness:
  "(0::nat) < length [Num (4::real)] \<and> fmul exact_arith ([Num 4] ! 0) scale = Num 40000
   \<and> (32767.5::real) \<le> 40000
   \<and> sint (delta_q exact_arith scale [Num 4] ! 0) = 32767
   \<and> fmul exact_arith ([Num (- 3.27685)] ! 0) scale = Num (- 32768.5)
   \<and> sint (delta_q exact_arith scale [Num (- 3.27685)] ! 0) = - 32768"
  using delta_q_clamped [of exact_arith scale "[Num 4]"]
        delta_q_clamped [of exact_arith scale "[Num (- 3.27685)]"]
  by (simp add: exact_arith_def exact2_def scale_def)






section \<open>Properties of the seed positions\<close>


lemma np_binop_same_length:
  "length xs = length ys \<Longrightarrow> np_binop f xs ys = Inr (map2 f xs ys)"
  by (simp add: np_binop_def)

lemma map2_nth: "i < length xs \<Longrightarrow> length xs = length ys \<Longrightarrow> map2 f xs ys ! i = f (xs ! i) (ys ! i)"
  by simp

lemma quantise_zero: "astype_int16 ar (np_clip (np_round (Num 0)) (- 32768) 32767) = 0"
  by (simp add: np_round_def np_clip_def astype_int16_def round_half_even_def)

text \<open>
  Claim C10. Let the signal have length at least 3 and finite samples, and let the arithmetic
  satisfy the identities of IEEE arithmetic that the seed positions meet: x + 0 = x and
  x - x = 0 for a finite x, 0 * S = 0 and 0 / S = 0 for the scale S. Then, whatever the
  coefficients of the two models are, STEP 3 to STEP 7 run without an exception, and at the
  indices 0 and 1 the hybrid signal equals the signal, the quantised delta is 0 and the
  final signal equals the signal.
\<close>

theorem seed_positions_exact:
  assumes len: "3 \<le> length signal"
    and fin: "\<forall>x \<in> set signal. is_finite x"
    and add0: "\<forall>r. fadd ar (Num r) (Num 0) = Num r"
    and sub0: "\<forall>r. fsub ar (Num r) (Num r) = Num 0"
    and mul0: "fmul ar (Num 0) sc = Num 0"
    and div0: "fdiv32 ar (Num 0) sc = Num 0"
  shows "\<exists>rb hyb d final.
           reconstructed_base ar W1 W2 W3 b signal = Inr rb
         \<and> base_plus_mirror ar rb (resid_pred ar R1 R2 Rb signal) = Inr hyb
         \<and> delta ar signal hyb = Inr d
         \<and> reconstructed_final ar sc hyb (delta_q ar sc d) = Inr final
         \<and> (\<forall>i. i < 2 \<longrightarrow> hyb ! i = signal ! i \<and> delta_q ar sc d ! i = 0 \<and> final ! i = signal ! i)"
proof -
  let ?rb = "base_loop ar W1 W2 W3 b (length signal - 2) [signal ! 0, signal ! 1]"
  let ?rp = "resid_pred ar R1 R2 Rb signal"
  let ?hyb = "map2 (fadd ar) ?rb ?rp"
  let ?d = "map2 (fsub ar) signal ?hyb"
  let ?dq = "delta_q ar sc ?d"
  let ?final = "map2 (fadd ar) ?hyb (dequantized ar sc ?dq)"
  have lrb: "length ?rb = length signal" using len by (simp add: length_base_loop)
  have lrp: "length ?rp = length signal" using len by (simp add: length_resid_pred)
  have lh: "length ?hyb = length signal" using lrb lrp by simp
  have ld: "length ?d = length signal" using lh by simp
  have ldq: "length (dequantized ar sc ?dq) = length signal"
    using ld by (simp add: dequantized_def delta_q_def)
  have 1: "reconstructed_base ar W1 W2 W3 b signal = Inr ?rb"
    using len by (simp add: reconstructed_base_def)
  have 2: "base_plus_mirror ar ?rb ?rp = Inr ?hyb"
    unfolding base_plus_mirror_def using lrb lrp by (simp add: np_binop_same_length)
  have 3: "delta ar signal ?hyb = Inr ?d"
    unfolding delta_def using lh by (simp add: np_binop_same_length)
  have 4: "reconstructed_final ar sc ?hyb ?dq = Inr ?final"
    unfolding reconstructed_final_def using lh ldq by (simp add: np_binop_same_length)
  have 5: "?hyb ! i = signal ! i \<and> ?dq ! i = 0 \<and> ?final ! i = signal ! i"
    if i: "i < 2" for i
  proof -
    have il: "i < length signal" using i len by simp
    then have "is_finite (signal ! i)" using fin nth_mem by blast
    then obtain r where r: "signal ! i = Num r"
      by (cases "signal ! i") (simp_all add: is_finite_def)
    have "i = 0 \<or> i = 1" using i by arith
    then have rbi: "?rb ! i = signal ! i" by (auto simp: base_loop_prefix)
    have "i = 0 \<or> i = 1" using i by arith
    then have rpi: "?rp ! i = Num 0" by (auto simp: resid_pred_def)
    have hi: "?hyb ! i = Num r"
      using il lrb lrp rbi rpi r add0 by simp
    have di: "?d ! i = Num 0"
      using il lh hi r sub0 by simp
    have qi: "?dq ! i = 0"
      using il ld di mul0 by (simp add: delta_q_nth quantise_zero)
    have dqi: "dequantized ar sc ?dq ! i = Num 0"
      using il ld qi div0 by (simp add: dequantized_def delta_q_def)
    have fi: "?final ! i = Num r"
      using il lh ldq hi dqi add0 by simp
    from hi qi fi r show ?thesis by simp
  qed
  then have 6: "\<forall>i. i < 2 \<longrightarrow> ?hyb ! i = signal ! i \<and> ?dq ! i = 0 \<and> ?final ! i = signal ! i"
    by blast
  from 1 2 3 4 6 show ?thesis by blast
qed

theorem seed_positions_exact_witness:
  "3 \<le> length [Num 1, Num 2, Num 5]
   \<and> (\<forall>r. fadd exact_arith (Num r) (Num 0) = Num r)
   \<and> (\<forall>r. fsub exact_arith (Num r) (Num r) = Num 0)
   \<and> fmul exact_arith (Num 0) scale = Num 0
   \<and> fdiv32 exact_arith (Num 0) scale = Num 0
   \<and> (\<exists>rb hyb d final.
           reconstructed_base exact_arith (Num 1) (Num 1) (Num 1) (Num 1) [Num 1, Num 2, Num 5] = Inr rb
         \<and> base_plus_mirror exact_arith rb (resid_pred exact_arith (Num 2) (Num 3) (Num 1) [Num 1, Num 2, Num 5]) = Inr hyb
         \<and> delta exact_arith [Num 1, Num 2, Num 5] hyb = Inr d
         \<and> reconstructed_final exact_arith scale hyb (delta_q exact_arith scale d) = Inr final
         \<and> hyb ! 0 = Num 1 \<and> hyb ! 1 = Num 2 \<and> delta_q exact_arith scale d ! 0 = 0
         \<and> delta_q exact_arith scale d ! 1 = 0 \<and> final ! 0 = Num 1 \<and> final ! 1 = Num 2)"
proof -
  have h1: "3 \<le> length [Num 1, Num 2, Num 5]" by simp
  have h2: "\<forall>x \<in> set [Num 1, Num 2, Num 5]. is_finite x" by (simp add: is_finite_def)
  have h3: "\<forall>r. fadd exact_arith (Num r) (Num 0) = Num r" by (simp add: exact_arith_def exact2_def)
  have h4: "\<forall>r. fsub exact_arith (Num r) (Num r) = Num 0" by (simp add: exact_arith_def exact2_def)
  have h5: "fmul exact_arith (Num 0) scale = Num 0" by (simp add: exact_arith_def exact2_def scale_def)
  have h6: "fdiv32 exact_arith (Num 0) scale = Num 0" by (simp add: exact_arith_def exact2_def scale_def)
  from seed_positions_exact [OF h1 h2 h3 h4 h5 h6, of "Num 1" "Num 1" "Num 1" "Num 1" "Num 2" "Num 3" "Num 1"]
  obtain rb hyb d final where
    "reconstructed_base exact_arith (Num 1) (Num 1) (Num 1) (Num 1) [Num 1, Num 2, Num 5] = Inr rb"
    "base_plus_mirror exact_arith rb (resid_pred exact_arith (Num 2) (Num 3) (Num 1) [Num 1, Num 2, Num 5]) = Inr hyb"
    "delta exact_arith [Num 1, Num 2, Num 5] hyb = Inr d"
    "reconstructed_final exact_arith scale hyb (delta_q exact_arith scale d) = Inr final"
    "\<forall>i. i < 2 \<longrightarrow> hyb ! i = [Num 1, Num 2, Num 5] ! i \<and> delta_q exact_arith scale d ! i = 0
        \<and> final ! i = [Num 1, Num 2, Num 5] ! i"
    by blast
  moreover from this(5) have "hyb ! 0 = Num 1 \<and> delta_q exact_arith scale d ! 0 = 0 \<and> final ! 0 = Num 1"
    by (metis nth_Cons_0 zero_less_numeral)
  moreover from calculation(5) have "hyb ! 1 = Num 2 \<and> delta_q exact_arith scale d ! 1 = 0 \<and> final ! 1 = Num 2"
    by (metis nth_Cons_0 nth_Cons_Suc One_nat_def one_less_numeral_iff semiring_norm(76))
  ultimately show ?thesis using h1 h3 h4 h5 h6 by blast
qed


section \<open>Concrete runs of the script\<close>


lemma strict_run:
  "chaos_codec exact_arith strict_caps [Num 1, Num 2, Num 5]
     (Inr \<lparr> henon_model = \<lparr> coef = [Num 3, Num 3, Num 3], intercept = Num 7 \<rparr>,
             residual_model = \<lparr> coef = [Num 2, Num 2], intercept = Num 6 \<rparr>,
             final_signal = [Num 1, Num 2, Num 44.7232],
             resid_compressed = [0, 0, 0, 0, 0, 128],
             weights_compressed = [3, 3, 3, 7, 2, 2, 6] \<rparr>)"
proof (rule chaos_codec.completes)
  show "X_base exact_arith [Num 1, Num 2, Num 5] = Inr [[Num 1, Num 2, Num 4]]"
    by (simp add: X_base_def vstack_T_def exact_arith_def exact2_def)
  show "fit strict_caps [[Num 1, Num 2, Num 4]] (y_base [Num 1, Num 2, Num 5]) (Inr \<lparr> coef = [Num 3, Num 3, Num 3], intercept = Num 7 \<rparr>)"
    by (simp add: strict_caps_def y_base_def is_finite_def)
  show "step3_4 exact_arith \<lparr> coef = [Num 3, Num 3, Num 3], intercept = Num 7 \<rparr> [Num 1, Num 2, Num 5]
          = Inr ([Num 1, Num 2, Num 28], [[Num 1, Num 2]], [Num (- 23)])"
    by (simp add: step3_4_def unpack3_def reconstructed_base_def residuals_def np_binop_def
          X_mirror_def vstack_T_def y_resid_def exact_arith_def exact2_def)
  show "fit strict_caps [[Num 1, Num 2]] [Num (- 23)] (Inr \<lparr> coef = [Num 2, Num 2], intercept = Num 6 \<rparr>)"
    by (simp add: strict_caps_def is_finite_def)
  show "step5_6 exact_arith \<lparr> coef = [Num 2, Num 2], intercept = Num 6 \<rparr> [Num 1, Num 2, Num 5] [Num 1, Num 2, Num 28]
          = Inr ([Num 1, Num 2, Num 48], [0, 0, - 32768])"
    by (simp add: step5_6_def unpack2_def base_plus_mirror_def resid_pred_def resid_pred_loop_def
          delta_def np_binop_def delta_q_def np_round_def np_clip_def astype_int16_def
          round_half_even_def scale_def exact_arith_def exact2_def)
  show "dumps_resid strict_caps ([0, 0, - 32768], scale) [0, 0, 0, 0, 0, 128]"
    by (simp add: strict_caps_def)
  show "compress strict_caps [0, 0, 0, 0, 0, 128] [0, 0, 0, 0, 0, 128]"
    by (simp add: strict_caps_def)
  show "reconstructed_final exact_arith scale [Num 1, Num 2, Num 48] [0, 0, - 32768]
          = Inr [Num 1, Num 2, Num 44.7232]"
    by (simp add: reconstructed_final_def dequantized_def np_binop_def scale_def exact_arith_def exact2_def)
  show "metrics strict_caps [Num 1, Num 2, Num 5] [Num 1, Num 2, Num 44.7232] (Inr ())"
    by (simp add: strict_caps_def)
  show "unpack3 (coef \<lparr> coef = [Num 3, Num 3, Num 3], intercept = Num 7 \<rparr>) = Inr (Num 3, Num 3, Num 3)"
    by (simp add: unpack3_def)
  show "unpack2 (coef \<lparr> coef = [Num 2, Num 2], intercept = Num 6 \<rparr>) = Inr (Num 2, Num 2)"
    by (simp add: unpack2_def)
  show "dumps_weights strict_caps
          (weights exact_arith (Num 3) (Num 3) (Num 3) (intercept \<lparr> coef = [Num 3, Num 3, Num 3], intercept = Num 7 \<rparr>)
             (Num 2) (Num 2) (intercept \<lparr> coef = [Num 2, Num 2], intercept = Num 6 \<rparr>)) [3, 3, 3, 7, 2, 2, 6]"
    by (simp add: strict_caps_def weights_def exact_arith_def)
  show "compress strict_caps [3, 3, 3, 7, 2, 2, 6] [3, 3, 3, 7, 2, 2, 6]"
    by (simp add: strict_caps_def)
qed

lemma strict_caps_validates: "fit_validates strict_caps"
  by (simp add: fit_validates_def strict_caps_def)

section \<open>Model parameters and input validation\<close>


lemma unpack3_Inr: "unpack3 xs = Inr (a, b, c) \<Longrightarrow> xs = [a, b, c]"
  by (auto simp: unpack3_def split: list.splits)

lemma unpack2_Inr: "unpack2 xs = Inr (a, b) \<Longrightarrow> xs = [a, b]"
  by (auto simp: unpack2_def split: list.splits)

text \<open>
  Claim C8. In a run that completes, the base model has 3 coefficients and the mirror model
  2, and the compressed model-parameter payload is the compression of the serialisation of
  the sequence: base coefficients, base intercept, mirror coefficients, mirror intercept,
  each narrowed to float16.
\<close>

theorem weights_fixed_order:
  assumes "chaos_codec ar cp signal (Inr out)"
  shows "length (coef (henon_model out)) = 3 \<and> length (coef (residual_model out)) = 2
       \<and> (\<exists>serialized.
             dumps_weights cp
               (map (to_f16 ar) (coef (henon_model out) @ [intercept (henon_model out)]
                                 @ coef (residual_model out) @ [intercept (residual_model out)]))
               serialized
           \<and> compress cp serialized (weights_compressed out))"
  using assms
proof (cases rule: chaos_codec.cases)
  case (completes X m1 rb Xm yr m2 hyb dq resid_payload rc fin W1 W2 W3 R1 R2 weights_payload wc)
  have c1: "coef m1 = [W1, W2, W3]" using completes(11) by (rule unpack3_Inr)
  have c2: "coef m2 = [R1, R2]" using completes(12) by (rule unpack2_Inr)
  have w: "weights ar W1 W2 W3 (intercept m1) R1 R2 (intercept m2)
             = map (to_f16 ar) (coef m1 @ [intercept m1] @ coef m2 @ [intercept m2])"
    by (simp add: weights_def c1 c2)
  from completes(13,14) w c1 c2 completes(1) show ?thesis by auto
qed

lemma vstack_T_three:
  "length c2 = length c1 \<Longrightarrow> length c3 = length c1 \<Longrightarrow>
   vstack_T [c1, c2, c3] = Inr (map (\<lambda>k. [c1 ! k, c2 ! k, c3 ! k]) [0..<length c1])"
  by (simp add: vstack_T_def)

lemma X_base_rows:
  "X_base ar signal =
     Inr (map (\<lambda>k. [take (length signal - 2) signal ! k,
                      drop 1 (take (length signal - 1) signal) ! k,
                      map (arr_pow2 ar) (drop 1 (take (length signal - 1) signal)) ! k])
              [0..<length signal - 2])"
proof -
  have a: "length (drop 1 (take (length signal - 1) signal)) = length (take (length signal - 2) signal)"
    by simp
  have b: "length (map (arr_pow2 ar) (drop 1 (take (length signal - 1) signal))) = length (take (length signal - 2) signal)"
    by simp
  from vstack_T_three [OF a b] show ?thesis by (simp add: X_base_def)
qed

lemma X_base_short: "length signal < 3 \<Longrightarrow> X_base ar signal = Inr []"
proof -
  assume "length signal < 3"
  then have "length signal - 2 = 0" by arith
  then show ?thesis unfolding X_base_rows by simp
qed

lemma X_base_first_row:
  assumes "3 \<le> length signal" and "X_base ar signal = Inr X"
  shows "X \<noteq> [] \<and> signal ! 0 \<in> set (hd X) \<and> signal ! 1 \<in> set (hd X)"
proof -
  obtain n where n: "length signal - 2 = Suc n" using assms(1) by (cases "length signal - 2") auto
  have X: "X = map (\<lambda>k. [take (length signal - 2) signal ! k,
                      drop 1 (take (length signal - 1) signal) ! k,
                      map (arr_pow2 ar) (drop 1 (take (length signal - 1) signal)) ! k])
              [0..<length signal - 2]"
    using assms(2) unfolding X_base_rows by simp
  have ne: "X \<noteq> []" unfolding X using assms(1) by simp
  have "hd X = [take (length signal - 2) signal ! 0,
                      drop 1 (take (length signal - 1) signal) ! 0,
                      map (arr_pow2 ar) (drop 1 (take (length signal - 1) signal)) ! 0]"
    unfolding X n by (simp add: upt_rec)
  moreover have "take (length signal - 2) signal ! 0 = signal ! 0" using assms(1) by simp
  moreover have "drop 1 (take (length signal - 1) signal) ! 0 = signal ! 1" using assms(1) by simp
  ultimately show ?thesis using ne by simp
qed

lemma y_base_mem: "2 \<le> i \<Longrightarrow> i < length signal \<Longrightarrow> signal ! i \<in> set (y_base signal)"
proof -
  assume i: "2 \<le> i" "i < length signal"
  then have "2 + (i - 2) = i" by arith
  then have "drop 2 signal ! (i - 2) = signal ! i" using i by (simp only: nth_drop)
  moreover have "i - 2 < length (drop 2 signal)" using i by simp
  ultimately show ?thesis unfolding y_base_def by (metis nth_mem)
qed

lemma invalid_training_set:
  assumes "length signal < 3 \<or> (\<exists>x \<in> set signal. \<not> is_finite x)" and "X_base ar signal = Inr X"
  shows "X = [] \<or> (\<exists>row \<in> set X. \<exists>v \<in> set row. \<not> is_finite v) \<or> (\<exists>v \<in> set (y_base signal). \<not> is_finite v)"
proof (cases "length signal < 3")
  case True
  then show ?thesis using assms(2) by (simp add: X_base_short)
next
  case False
  then have len: "3 \<le> length signal" by simp
  from False assms(1) obtain x where x: "x \<in> set signal" "\<not> is_finite x" by blast
  then obtain i where i: "i < length signal" "signal ! i = x" by (auto simp: in_set_conv_nth)
  from X_base_first_row [OF len assms(2)]
  have fr: "X \<noteq> []" "signal ! 0 \<in> set (hd X)" "signal ! 1 \<in> set (hd X)" by simp_all
  show ?thesis
  proof (cases "i < 2")
    case True
    then have "i = 0 \<or> i = 1" by arith
    then have "x \<in> set (hd X)" using fr i(2) by auto
    moreover have "hd X \<in> set X" using fr(1) by simp
    ultimately show ?thesis using x(2) by blast
  next
    case False
    then have "x \<in> set (y_base signal)" using i y_base_mem [of i signal] by simp
    then show ?thesis using x(2) by blast
  qed
qed

text \<open>
  Claim C6. Let the fitting routine validate its input as the library of the source does.
  For a signal of length below 3 or with a sample that is not finite, the training set of
  the first call of the fitting routine is empty or holds that sample, and the only run of
  the script is the one that ends in that first call with its ValueError, the rejection of
  the invalid input: no model is trained and no reconstruction or payload is produced.
\<close>

theorem invalid_input_rejected:
  assumes val: "fit_validates cp"
    and bad: "length signal < 3 \<or> (\<exists>x \<in> set signal. \<not> is_finite x)"
  shows "\<exists>X. X_base ar signal = Inr X
           \<and> (\<forall>out. chaos_codec ar cp signal out
                  \<longleftrightarrow> out = Inl ValueError \<and> fit cp X (y_base signal) (Inl ValueError))"
proof -
  obtain X where X: "X_base ar signal = Inr X" using X_base_rows by blast
  note inv = invalid_training_set [OF bad X]
  have rej: "r = Inl ValueError" if "fit cp X (y_base signal) r" for r
    using val that inv unfolding fit_validates_def by blast
  have "out = Inl ValueError \<and> fit cp X (y_base signal) (Inl ValueError)"
    if run: "chaos_codec ar cp signal out" for out
    using run
  proof (cases rule: chaos_codec.cases)
    case (features_raise e)
    then show ?thesis using X by simp
  next
    case (fit_base_raises X' e)
    then show ?thesis using X rej [of "Inl e"] by auto
  next
    case (base_raises X' m1 e)
    then show ?thesis using X rej [of "Inr m1"] by auto
  next
    case (fit_mirror_raises X' m1 rb Xm yr e)
    then show ?thesis using X rej [of "Inr m1"] by auto
  next
    case (hybrid_raises X' m1 rb Xm yr m2 e)
    then show ?thesis using X rej [of "Inr m1"] by auto
  next
    case (final_raises X' m1 rb Xm yr m2 hyb dq resid_payload rc e)
    then show ?thesis using X rej [of "Inr m1"] by auto
  next
    case (metrics_raise X' m1 rb Xm yr m2 hyb dq resid_payload rc fin e)
    then show ?thesis using X rej [of "Inr m1"] by auto
  next
    case (completes X' m1 rb Xm yr m2 hyb dq resid_payload rc fin W1 W2 W3 R1 R2 weights_payload wc)
    then show ?thesis using X rej [of "Inr m1"] by auto
  qed
  moreover have "chaos_codec ar cp signal out"
    if "out = Inl ValueError \<and> fit cp X (y_base signal) (Inl ValueError)" for out
    using that X chaos_codec.fit_base_raises [of ar signal X cp ValueError] by simp
  ultimately have "\<forall>out. chaos_codec ar cp signal out
                  \<longleftrightarrow> out = Inl ValueError \<and> fit cp X (y_base signal) (Inl ValueError)"
    by blast
  with X show ?thesis by blast
qed

theorem weights_fixed_order_witness:
  "chaos_codec exact_arith strict_caps [Num 1, Num 2, Num 5]
     (Inr \<lparr> henon_model = \<lparr> coef = [Num 3, Num 3, Num 3], intercept = Num 7 \<rparr>,
             residual_model = \<lparr> coef = [Num 2, Num 2], intercept = Num 6 \<rparr>,
             final_signal = [Num 1, Num 2, Num 44.7232],
             resid_compressed = [0, 0, 0, 0, 0, 128],
             weights_compressed = [3, 3, 3, 7, 2, 2, 6] \<rparr>)
   \<and> dumps_weights strict_caps
         (map (to_f16 exact_arith) ([Num 3, Num 3, Num 3] @ [Num 7] @ [Num 2, Num 2] @ [Num 6]))
         [3, 3, 3, 7, 2, 2, 6]
   \<and> compress strict_caps [3, 3, 3, 7, 2, 2, 6] [3, 3, 3, 7, 2, 2, 6]"
  using weights_fixed_order [OF strict_run] strict_run
  by (simp add: strict_caps_def)

theorem invalid_input_rejected_witness:
  "fit_validates strict_caps \<and> length [Num 1, Num 2] < 3
   \<and> X_base exact_arith [Num 1, Num 2] = Inr []
   \<and> fit strict_caps [] (y_base [Num 1, Num 2]) (Inl ValueError)
   \<and> chaos_codec exact_arith strict_caps [Num 1, Num 2] (Inl ValueError)
   \<and> NaN \<in> set [Num 1, NaN, Num 5] \<and> \<not> is_finite NaN
   \<and> chaos_codec exact_arith strict_caps [Num 1, NaN, Num 5] (Inl ValueError)
   \<and> PInf \<in> set [Num 1, Num 2, PInf] \<and> \<not> is_finite PInf
   \<and> chaos_codec exact_arith strict_caps [Num 1, Num 2, PInf] (Inl ValueError)"
proof -
  have short: "length [Num 1, Num 2] < 3 \<or> (\<exists>x \<in> set [Num 1, Num 2]. \<not> is_finite x)"
    by simp
  have nan: "length [Num 1, NaN, Num 5] < 3 \<or> (\<exists>x \<in> set [Num 1, NaN, Num 5]. \<not> is_finite x)"
    by (simp add: is_finite_def)
  have f: "fit strict_caps [] (y_base [Num 1, Num 2]) (Inl ValueError)"
    by (simp add: strict_caps_def)
  from invalid_input_rejected [OF strict_caps_validates short, of exact_arith] f
  have a: "chaos_codec exact_arith strict_caps [Num 1, Num 2] (Inl ValueError)"
    by (auto simp: X_base_short)
  have g: "fit strict_caps [[Num 1, NaN, NaN]] (y_base [Num 1, NaN, Num 5]) (Inl ValueError)"
    by (simp add: strict_caps_def is_finite_def)
  have x: "X_base exact_arith [Num 1, NaN, Num 5] = Inr [[Num 1, NaN, NaN]]"
    by (simp add: X_base_def vstack_T_def exact_arith_def exact2_def)
  from invalid_input_rejected [OF strict_caps_validates nan, of exact_arith] g x
  have b: "chaos_codec exact_arith strict_caps [Num 1, NaN, Num 5] (Inl ValueError)"
    by auto
  have inf: "length [Num 1, Num 2, PInf] < 3 \<or> (\<exists>x \<in> set [Num 1, Num 2, PInf]. \<not> is_finite x)"
    by (simp add: is_finite_def)
  have h: "fit strict_caps [[Num 1, Num 2, Num 4]] (y_base [Num 1, Num 2, PInf]) (Inl ValueError)"
    by (simp add: strict_caps_def is_finite_def y_base_def)
  have y: "X_base exact_arith [Num 1, Num 2, PInf] = Inr [[Num 1, Num 2, Num 4]]"
    by (simp add: X_base_def vstack_T_def exact_arith_def exact2_def)
  from invalid_input_rejected [OF strict_caps_validates inf, of exact_arith] h y
  have c: "chaos_codec exact_arith strict_caps [Num 1, Num 2, PInf] (Inl ValueError)"
    by auto
  from a b c f strict_caps_validates show ?thesis
    by (simp add: X_base_short is_finite_def)
qed

end
